theory Spec2Isabelle
  imports Main "HOL-Library.Multiset"
begin

section \<open>The control menu of the image labeler (ControlMenu.tsx)\<close>

text \<open>
  The component \<open>ControlMenu\<close> is a function of its props (the draft, the label
  configuration, the callbacks, the flags \<open>disabled\<close>, \<open>showNavigation\<close> and
  \<open>allowRegion\<close>) and of its own editor state. Its handlers do not mutate anything:
  they call \<open>setDraft\<close> with a new draft, \<open>setToast\<close> with a message, or an
  external callback. The model below writes each handler as a function that returns
  what it hands to those callbacks; a \<^verbatim>\<open>throw\<close> is the left summand of a sum.
  \<open>React.useMemo\<close> and \<open>React.useCallback\<close> are recomputation.
\<close>

subsection \<open>Data: label configuration, label data, regions, the draft\<close>

text \<open>
  The declarations of \<open>library/types\<close> are not part of the sources at hand; the
  records hold the fields that \<open>ControlMenu.tsx\<close> reads or writes. An object spread
  \<^verbatim>\<open>{...x, f: v}\<close> is the record update \<open>x\<lparr>f := v\<rparr>\<close>. An optional property is an
  \<open>option\<close>; \<open>None\<close> is \<^verbatim>\<open>undefined\<close>.
\<close>

record label_option =
  option_name :: string
  option_displayName :: string

text \<open>
  \<open>required\<close> is tested by \<^verbatim>\<open>!c.required\<close>, which also holds when the property is
  absent.
\<close>

record label_config =
  name :: string
  displayName :: "string option"
  options :: "label_option list"
  multiple :: bool
  freeform :: bool
  required :: "bool option"
  layout :: "string option"

text \<open>
  Label data is a plain JavaScript object from label names to lists of strings. Its
  own properties are kept as an association list, in key order; its prototype is
  \<open>Object.prototype\<close>.
\<close>

type_synonym label_data = "(string \<times> string list) list"

record 'g region_label =
  geometry :: 'g
  region_labels :: label_data
  readonly :: "bool option"
  metadata :: "(string \<times> string) list option"

record 'g active_region =
  region :: "'g region_label"

datatype drawing_mode = Boxes | Polygons | Masks

record 'g draft_labels =
  image_labels :: label_data
  boxes :: "'g region_label list"
  polygons :: "'g region_label list"
  masks :: "'g region_label list"

record 'g drawing_state =
  mode :: drawing_mode
  active :: "'g active_region option"
  flood :: bool
  threshold :: int
  radius :: int

record 'g draft_state =
  dirty :: bool
  labels :: "'g draft_labels"
  drawing :: "'g drawing_state"

text \<open>
  The prop \<open>config\<close> is read as \<^verbatim>\<open>other.config?.image || []\<close>: the configuration and
  each of its two lists may be absent.
\<close>

record config_prop =
  prop_image :: "label_config list option"
  prop_regions :: "label_config list option"

record config =
  config_image :: "label_config list"
  config_regions :: "label_config list"

datatype level = Image | Regions

fun config_at :: "config \<Rightarrow> level \<Rightarrow> label_config list" where
  "config_at c Image = config_image c"
| "config_at c Regions = config_regions c"

fun config_put :: "config \<Rightarrow> level \<Rightarrow> label_config list \<Rightarrow> config" where
  "config_put c Image ds = c\<lparr>config_image := ds\<rparr>"
| "config_put c Regions ds = c\<lparr>config_regions := ds\<rparr>"

text \<open>
  \<^verbatim>\<open>draft.labels[draft.drawing.mode]\<close> and the computed key
  \<^verbatim>\<open>[draft.drawing.mode]: ...\<close> of the spread.
\<close>

fun regions_at :: "'g draft_labels \<Rightarrow> drawing_mode \<Rightarrow> 'g region_label list" where
  "regions_at l Boxes = boxes l"
| "regions_at l Polygons = polygons l"
| "regions_at l Masks = masks l"

fun regions_put :: "'g draft_labels \<Rightarrow> drawing_mode \<Rightarrow> 'g region_label list \<Rightarrow> 'g draft_labels" where
  "regions_put l Boxes rs = l\<lparr>boxes := rs\<rparr>"
| "regions_put l Polygons rs = l\<lparr>polygons := rs\<rparr>"
| "regions_put l Masks rs = l\<lparr>masks := rs\<rparr>"

subsection \<open>The computed state (lines 110 to 139)\<close>

text \<open>
  \<open>shortcutify\<close> (\<open>library/utils\<close>) is not part of the sources at hand. It is the
  parameter \<open>sc\<close> of every definition that depends on it. \<open>or_empty\<close> is
  \<^verbatim>\<open>x || []\<close> on an optional list.
\<close>

definition or_empty :: "'a list option \<Rightarrow> 'a list" where
  "or_empty x = (case x of None \<Rightarrow> [] | Some xs \<Rightarrow> xs)"

record computed_state =
  level :: level
  activeConfig :: "label_config list"
  cs_config :: config
  allowRegionSelection :: bool
  disableLabelPanel :: bool
  cs_labels :: label_data

definition computedState ::
  "(label_config list \<Rightarrow> label_config list) \<Rightarrow> config_prop option \<Rightarrow> bool \<Rightarrow> bool \<Rightarrow>
     'g draft_state \<Rightarrow> computed_state" where
  "computedState sc props allowRegion disabled draft =
     (let lvl = (if active (drawing draft) \<noteq> None then Regions else Image);
          cfg = \<lparr> config_image = sc (or_empty (case props of None \<Rightarrow> None | Some p \<Rightarrow> prop_image p)),
                  config_regions = sc (or_empty (case props of None \<Rightarrow> None | Some p \<Rightarrow> prop_regions p)) \<rparr>;
          activeCfg = config_at cfg lvl
      in \<lparr> level = lvl,
           activeConfig = activeCfg,
           cs_config = cfg,
           allowRegionSelection = (length (config_regions cfg) > 0 \<and> allowRegion),
           disableLabelPanel =
             (disabled \<or>
              (case active (drawing draft) of None \<Rightarrow> False
               | Some a \<Rightarrow> readonly (region a) = Some True)),
           cs_labels =
             (case active (drawing draft) of
                Some a \<Rightarrow> region_labels (region a)
              | None \<Rightarrow> image_labels (labels draft)) \<rparr>)"

subsection \<open>Required fields (lines 146 to 158)\<close>

text \<open>
  The read \<^verbatim>\<open>labels[c.name]\<close> is a property read: it gives the object's own entry
  of that name, and for a name the object does not own, the member of
  \<open>Object.prototype\<close> of that name. Those members are functions (\<open>Method n\<close> is
  a function of \<open>n\<close> declared parameters, which is its \<^verbatim>\<open>length\<close>) and the
  accessor \<^verbatim>\<open>__proto__\<close>, which gives the prototype object itself.
\<close>

datatype property = Entry "string list" | Method nat | Prototype | Undefined

definition objectPrototype :: "string \<Rightarrow> property" where
  "objectPrototype k =
     (if k \<in> set [''constructor'', ''hasOwnProperty'', ''isPrototypeOf'',
                   ''propertyIsEnumerable'', ''__lookupGetter__'', ''__lookupSetter__'']
      then Method 1
      else if k \<in> set [''__defineGetter__'', ''__defineSetter__''] then Method 2
      else if k \<in> set [''toString'', ''toLocaleString'', ''valueOf''] then Method 0
      else if k = ''__proto__'' then Prototype
      else Undefined)"

definition getProperty :: "label_data \<Rightarrow> string \<Rightarrow> property" where
  "getProperty l k = (case map_of l k of Some v \<Rightarrow> Entry v | None \<Rightarrow> objectPrototype k)"

text \<open>
  \<^verbatim>\<open>(v || []).length > 0\<close>. An array and a function are truthy and have a
  \<^verbatim>\<open>length\<close>; the prototype object is truthy and has none, and
  \<^verbatim>\<open>undefined > 0\<close> is false; \<^verbatim>\<open>undefined || []\<close> is the empty array.
\<close>

fun nonEmpty :: "property \<Rightarrow> bool" where
  "nonEmpty (Entry v) = (length v > 0)"
| "nonEmpty (Method n) = (n > 0)"
| "nonEmpty Prototype = False"
| "nonEmpty Undefined = False"

text \<open>
  The predicate handed to \<^verbatim>\<open>every\<close>:
  \<^verbatim>\<open>(c) => !c.required || (labels[c.name] || []).length > 0\<close>.
\<close>

definition fieldFilled :: "label_data \<Rightarrow> label_config \<Rightarrow> bool" where
  "fieldFilled l c = (required c \<noteq> Some True \<or> nonEmpty (getProperty l (name c)))"

definition requiredFieldsFilled :: "computed_state \<Rightarrow> 'g draft_state \<Rightarrow> bool" where
  "requiredFieldsFilled cs draft =
     (case active (drawing draft) of
        Some a \<Rightarrow> list_all (fieldFilled (region_labels (region a))) (activeConfig cs)
      | None \<Rightarrow> list_all (fieldFilled (image_labels (labels draft))) (activeConfig cs))"

subsection \<open>Finishing a region (lines 159 to 181)\<close>

definition finishRegion :: "bool \<Rightarrow> 'g draft_state \<Rightarrow> string + 'g draft_state" where
  "finishRegion save draft =
     (case active (drawing draft) of
        None \<Rightarrow> Inl ''Called to finish region but no region is selected.''
      | Some a \<Rightarrow>
          Inr (draft\<lparr> dirty := True,
                     labels := regions_put (labels draft) (mode (drawing draft))
                        ((if save then [region a] else []) @
                         regions_at (labels draft) (mode (drawing draft))),
                     drawing := (drawing draft)\<lparr> active := None \<rparr> \<rparr>))"

subsection \<open>Setting labels from the label panel (lines 257 to 283)\<close>

definition setLabels :: "label_data \<Rightarrow> 'g draft_state \<Rightarrow> 'g draft_state" where
  "setLabels current draft =
     draft\<lparr> dirty := True,
            labels := (case active (drawing draft) of
                         Some a \<Rightarrow> labels draft
                       | None \<Rightarrow> (labels draft)\<lparr> image_labels := current \<rparr>),
            drawing := (case active (drawing draft) of
                          Some a \<Rightarrow> (drawing draft)\<lparr> active :=
                             Some (a\<lparr> region := (region a)\<lparr> region_labels := current \<rparr> \<rparr>) \<rparr>
                        | None \<Rightarrow> drawing draft) \<rparr>"

subsection \<open>The keyboard handler (lines 182 to 256)\<close>

record key_event =
  key :: string
  altKey :: bool
  ctrlKey :: bool
  shiftKey :: bool
  metaKey :: bool

text \<open>The keys of \<open>refs\<close>: the names of the buttons a shortcut can activate.\<close>

datatype target =
  TNext | TPrev | TSave | TFinishRegion | TClearRegion | TDelete | TIgnore
  | TSelectAll | TSelectNone | TUndoRegion | TUndo

text \<open>The callbacks are external; the component only tests which of them are given.\<close>

record callbacks =
  onKeyboardEvent :: bool
  onSave :: bool
  onNext :: bool
  onPrev :: bool
  onDelete :: bool
  onIgnore :: bool
  onUnignore :: bool
  onSaveConfig :: bool
  onReset :: bool
  onSelectAll :: bool
  onSelectNone :: bool
  onShowIndex :: bool
  onDownload :: bool
  onUndo :: bool

text \<open>
  What the handler does to its surroundings, in the order of its calls.
  \<open>SimulateClick t\<close> is \<^verbatim>\<open>simulateClick(refs[t].current).then(setFocus)\<close>.
\<close>

datatype effect =
  CallOnKeyboardEvent
  | SetToast string
  | SimulateClick target
  | PreventDefault
  | StopPropagation

text \<open>
  The \<^verbatim>\<open>switch\<close> on \<open>event.key\<close> (lines 191 to 243). \<open>None\<close> is the
  \<^verbatim>\<open>default: return\<close>; otherwise the toasts raised inside the switch and the value
  of \<open>target\<close> after it.
\<close>

definition resolveKey :: "key_event \<Rightarrow> 'g draft_state \<Rightarrow> (string list \<times> target option) option" where
  "resolveKey event draft =
     (if key event = ''A'' then
        Some ([], if ctrlKey event \<and> shiftKey event then Some TSelectNone else None)
      else if key event = ''a'' then
        Some ([], if ctrlKey event \<and> \<not> shiftKey event then Some TSelectAll else None)
      else if key event = ''z'' then
        Some ([], if metaKey event \<noteq> ctrlKey event
                  then (if active (drawing draft) \<noteq> None then Some TUndoRegion else Some TUndo)
                  else None)
      else if key event = ''ArrowRight'' then
        (let target = (if ctrlKey event \<or> shiftKey event then None else Some TNext) in
         if dirty draft \<and> target \<noteq> None
         then Some ([''Please save or reset your changes before advancing to next item.''], None)
         else Some ([], target))
      else if key event = ''ArrowLeft'' then
        (let target = Some TPrev in
         if dirty draft \<and> target \<noteq> None
         then Some ([''Please save or reset your changes before returning to previous item.''], None)
         else Some ([], target))
      else if key event = ''Enter'' then
        Some ([], if ctrlKey event \<or> shiftKey event then None
                  else if active (drawing draft) \<noteq> None then Some TFinishRegion
                  else Some TSave)
      else if key event = ''Backspace'' \<or> key event = ''Delete'' then
        Some ([], if ctrlKey event \<or> shiftKey event then None
                  else if active (drawing draft) \<noteq> None then Some TClearRegion
                  else Some TDelete)
      else None)"

text \<open>
  The handler. \<open>refs t\<close> says that \<^verbatim>\<open>refs[t].current\<close> is set, and \<open>filled\<close> is the
  memoised \<open>requiredFieldsFilled\<close>.
\<close>

definition keyboardHandler ::
  "callbacks \<Rightarrow> (target \<Rightarrow> bool) \<Rightarrow> bool \<Rightarrow> 'g draft_state \<Rightarrow> key_event \<Rightarrow> effect list" where
  "keyboardHandler cbs refs filled draft event =
     (if onKeyboardEvent cbs then [CallOnKeyboardEvent] else []) @
     (if altKey event then []
      else case resolveKey event draft of
        None \<Rightarrow> []
      | Some (toasts, target) \<Rightarrow>
          map SetToast toasts @
          (if (target = Some TFinishRegion \<or> target = Some TSave) \<and> \<not> filled
           then [SetToast ''Please fill in all required fields.'']
           else case target of
             None \<Rightarrow> []
           | Some t \<Rightarrow> if refs t then [SimulateClick t, PreventDefault, StopPropagation] else []))"

text \<open>
  A ref is set when its button is rendered (lines 428 to 610): the region buttons while
  a region is active, the others otherwise.
\<close>

definition mounted :: "callbacks \<Rightarrow> bool \<Rightarrow> 'g draft_state \<Rightarrow> target \<Rightarrow> bool" where
  "mounted cbs showNavigation draft t =
     (if active (drawing draft) \<noteq> None
      then t = TFinishRegion \<or> t = TClearRegion \<or> (t = TUndoRegion \<and> onUndo cbs)
      else (t = TSelectAll \<and> onSelectAll cbs) \<or> (t = TSelectNone \<and> onSelectNone cbs)
         \<or> t = TSave
         \<or> (t = TIgnore \<and> (onIgnore cbs \<or> onUnignore cbs))
         \<or> (t = TDelete \<and> onDelete cbs)
         \<or> (t = TUndo \<and> onUndo cbs)
         \<or> ((t = TPrev \<or> t = TNext) \<and> (onPrev cbs \<or> onNext cbs \<or> showNavigation)))"

text \<open>The handler as the component installs it, on the values of the current render.\<close>

definition onKey ::
  "(label_config list \<Rightarrow> label_config list) \<Rightarrow> config_prop option \<Rightarrow> bool \<Rightarrow> bool \<Rightarrow> bool \<Rightarrow>
     callbacks \<Rightarrow> 'g draft_state \<Rightarrow> key_event \<Rightarrow> effect list" where
  "onKey sc props allowRegion disabled showNavigation cbs draft event =
     keyboardHandler cbs (mounted cbs showNavigation draft)
       (requiredFieldsFilled (computedState sc props allowRegion disabled draft) draft)
       draft event"

text \<open>
  The \<open>onClick\<close> of the buttons that reach \<open>setDraft\<close> (lines 430 to 451). The
  finish button is a \<open>ButtonWithTooltip\<close>, which drops its \<open>onClick\<close> when
  \<open>disabled\<close>, that is when the required fields are not filled; the delete button of a
  region is disabled for a readonly region. Every other button calls an external
  callback and leaves the draft to its owner.
\<close>

definition buttonOnClick :: "bool \<Rightarrow> target \<Rightarrow> 'g draft_state \<Rightarrow> string + 'g draft_state" where
  "buttonOnClick filled t draft =
     (if t = TFinishRegion then (if \<not> filled then Inr draft else finishRegion True draft)
      else if t = TClearRegion then
        (if (case active (drawing draft) of None \<Rightarrow> False
             | Some a \<Rightarrow> readonly (region a) = Some True)
         then Inr draft else finishRegion False draft)
      else Inr draft)"

fun draftAfter :: "bool \<Rightarrow> effect list \<Rightarrow> 'g draft_state \<Rightarrow> string + 'g draft_state" where
  "draftAfter filled [] draft = Inr draft"
| "draftAfter filled (SimulateClick t # es) draft =
     (case buttonOnClick filled t draft of
        Inl e \<Rightarrow> Inl e
      | Inr draft' \<Rightarrow> draftAfter filled es draft')"
| "draftAfter filled (e # es) draft = draftAfter filled es draft"

subsection \<open>Drawing mode and mask parameters (lines 318 to 420)\<close>

text \<open>
  The \<open>setLabels\<close> of the drawing mode selector (lines 319 to 327); \<open>m\<close> is
  \<^verbatim>\<open>labels.drawingMode[0]\<close>, one of the three option names of the selector.
\<close>

definition setDrawingMode :: "drawing_mode \<Rightarrow> 'g draft_state \<Rightarrow> 'g draft_state" where
  "setDrawingMode m draft = draft\<lparr> drawing := (drawing draft)\<lparr> mode := m \<rparr> \<rparr>"

text \<open>The \<open>disabled\<close> prop of the selector (line 328).\<close>

definition modeSelectorDisabled :: "bool \<Rightarrow> 'g draft_state \<Rightarrow> bool" where
  "modeSelectorDisabled disabled draft = (active (drawing draft) \<noteq> None \<or> disabled)"

text \<open>
  Modelled from the spec: \<open>LabelPanel\<close> (\<open>./LabelPanel\<close>) is not part of the sources
  at hand. The spec has the mode selection disabled during active-region editing and
  \<open>setMode\<close> rejected there: a disabled panel does not call its \<open>setLabels\<close>.
\<close>

definition labelPanelSelect :: "bool \<Rightarrow> ('a \<Rightarrow> 's \<Rightarrow> 's) \<Rightarrow> 'a \<Rightarrow> 's \<Rightarrow> 's" where
  "labelPanelSelect disabled setter v s = (if disabled then s else setter v s)"

definition selectDrawingMode :: "bool \<Rightarrow> drawing_mode \<Rightarrow> 'g draft_state \<Rightarrow> 'g draft_state" where
  "selectDrawingMode disabled m draft =
     labelPanelSelect (modeSelectorDisabled disabled draft) setDrawingMode m draft"

text \<open>The flood checkbox and the two sliders (lines 369 to 418).\<close>

definition setFlood :: "bool \<Rightarrow> 'g draft_state \<Rightarrow> 'g draft_state" where
  "setFlood fl draft =
     draft\<lparr> drawing := (if mode (drawing draft) = Masks
                         then (drawing draft)\<lparr> flood := fl \<rparr>
                         else drawing draft) \<rparr>"

definition setThreshold :: "int \<Rightarrow> 'g draft_state \<Rightarrow> 'g draft_state" where
  "setThreshold v draft = draft\<lparr> drawing := (drawing draft)\<lparr> threshold := v \<rparr> \<rparr>"

definition setRadius :: "int \<Rightarrow> 'g draft_state \<Rightarrow> 'g draft_state" where
  "setRadius v draft = draft\<lparr> drawing := (drawing draft)\<lparr> radius := v \<rparr> \<rparr>"

subsection \<open>Saving a label definition from the editor (lines 639 to 658)\<close>

record editor_state =
  configEditorOpen :: bool
  index :: "int option"

text \<open>
  \<^verbatim>\<open>xs.slice(start, fin)\<close>: a negative bound counts from the end, and both bounds are
  clamped to the list. \<^verbatim>\<open>xs.slice(start)\<close> runs to the end.
\<close>

definition js_slice :: "'a list \<Rightarrow> int \<Rightarrow> int \<Rightarrow> 'a list" where
  "js_slice xs start fin =
     (let n = int (length xs);
          k = (if start < 0 then max (n + start) 0 else min start n);
          f = (if fin < 0 then max (n + fin) 0 else min fin n)
      in take (nat (f - k)) (drop (nat k) xs))"

definition js_slice_from :: "'a list \<Rightarrow> int \<Rightarrow> 'a list" where
  "js_slice_from xs start = js_slice xs start (int (length xs))"

text \<open>
  The result is what is handed to \<open>callbacks.onSaveConfig\<close> and to \<open>setState\<close>;
  \<open>Inl\<close> is the \<^verbatim>\<open>throw\<close>, before either call.
\<close>

definition onSave ::
  "computed_state \<Rightarrow> editor_state \<Rightarrow> label_config \<Rightarrow> level \<Rightarrow> string + (config \<times> editor_state)" where
  "onSave cs st newLabelConfig lvl =
     (if index st = None \<and>
         find (\<lambda>c. name c = name newLabelConfig) (config_at (cs_config cs) lvl) \<noteq> None
      then Inl ''User attempted to add a config with the name of an existing config.''
      else
        (let previous = config_at (cs_config cs) lvl;
             i = (case index st of None \<Rightarrow> int (length previous) | Some j \<Rightarrow> j)
         in Inr (config_put (cs_config cs) lvl
                   (js_slice previous 0 i @ [newLabelConfig] @ js_slice_from previous (i + 1)),
                 \<lparr> configEditorOpen = False, index = None \<rparr>)))"

subsection \<open>Concrete inputs\<close>

text \<open>
  The scenario of the specification: one required image-level label \<open>quality\<close>, one
  required region-level label \<open>kind\<close>, a fresh draft, and drafts with a region being
  drawn. Geometry is a number here; no definition above looks into it.
\<close>

definition quality :: label_config where
  "quality = \<lparr> name = ''quality'', displayName = Some ''Quality'',
               options = [\<lparr> option_name = ''good'', option_displayName = ''Good'' \<rparr>,
                          \<lparr> option_name = ''bad'', option_displayName = ''Bad'' \<rparr>],
               multiple = False, freeform = False, required = Some True, layout = None \<rparr>"

definition kind :: label_config where
  "kind = \<lparr> name = ''kind'', displayName = None,
            options = [\<lparr> option_name = ''car'', option_displayName = ''Car'' \<rparr>],
            multiple = True, freeform = False, required = Some True, layout = Some ''row'' \<rparr>"

definition remark :: label_config where
  "remark = \<lparr> name = ''remark'', displayName = None, options = [],
            multiple = False, freeform = True, required = None, layout = None \<rparr>"

definition scenario_config :: "config_prop option" where
  "scenario_config = Some \<lparr> prop_image = Some [quality, remark], prop_regions = Some [kind] \<rparr>"

definition regions_only_config :: "config_prop option" where
  "regions_only_config = Some \<lparr> prop_image = None, prop_regions = Some [kind] \<rparr>"

definition fresh_draft :: "nat draft_state" where
  "fresh_draft =
     \<lparr> dirty = False,
       labels = \<lparr> image_labels = [], boxes = [], polygons = [], masks = [] \<rparr>,
       drawing = \<lparr> mode = Boxes, active = None, flood = False, threshold = 10, radius = 10 \<rparr> \<rparr>"

definition new_region :: "nat region_label" where
  "new_region = \<lparr> geometry = 1, region_labels = [], readonly = None, metadata = None \<rparr>"

definition readonly_region :: "nat region_label" where
  "readonly_region =
     \<lparr> geometry = 2, region_labels = [(''kind'', [''car''])], readonly = Some True,
       metadata = None \<rparr>"

definition old_region :: "nat region_label" where
  "old_region =
     \<lparr> geometry = 3, region_labels = [(''kind'', [''car''])], readonly = Some False,
       metadata = None \<rparr>"

definition editing_draft :: "nat draft_state" where
  "editing_draft =
     fresh_draft\<lparr> labels := (labels fresh_draft)\<lparr> boxes := [old_region, old_region] \<rparr>,
                  drawing := (drawing fresh_draft)\<lparr> active := Some \<lparr> region = new_region \<rparr> \<rparr> \<rparr>"

definition readonly_draft :: "nat draft_state" where
  "readonly_draft =
     fresh_draft\<lparr> drawing := (drawing fresh_draft)\<lparr> active := Some \<lparr> region = readonly_region \<rparr> \<rparr> \<rparr>"

definition dirty_draft :: "nat draft_state" where
  "dirty_draft = fresh_draft\<lparr> dirty := True \<rparr>"

definition no_callbacks :: callbacks where
  "no_callbacks =
     \<lparr> onKeyboardEvent = False, onSave = False, onNext = False, onPrev = False,
       onDelete = False, onIgnore = False, onUnignore = False, onSaveConfig = False,
       onReset = False, onSelectAll = False, onSelectNone = False, onShowIndex = False,
       onDownload = False, onUndo = False \<rparr>"

definition all_callbacks :: callbacks where
  "all_callbacks =
     \<lparr> onKeyboardEvent = True, onSave = True, onNext = True, onPrev = True,
       onDelete = True, onIgnore = True, onUnignore = True, onSaveConfig = True,
       onReset = True, onSelectAll = True, onSelectNone = True, onShowIndex = True,
       onDownload = True, onUndo = True \<rparr>"

definition plain_key :: "string \<Rightarrow> key_event" where
  "plain_key k = \<lparr> key = k, altKey = False, ctrlKey = False, shiftKey = False, metaKey = False \<rparr>"

definition adding :: editor_state where
  "adding = \<lparr> configEditorOpen = True, index = None \<rparr>"

definition editing :: "int \<Rightarrow> editor_state" where
  "editing i = \<lparr> configEditorOpen = True, index = Some i \<rparr>"

text \<open>A required label whose name is that of a member of \<open>Object.prototype\<close>.\<close>

definition constructor_def :: label_config where
  "constructor_def = \<lparr> name = ''constructor'', displayName = None, options = [],
                       multiple = False, freeform = True, required = Some True, layout = None \<rparr>"

definition constructor_config :: "config_prop option" where
  "constructor_config =
     Some \<lparr> prop_image = Some [constructor_def], prop_regions = Some [constructor_def] \<rparr>"

definition masks_draft :: "nat draft_state" where
  "masks_draft =
     fresh_draft\<lparr> drawing := (drawing fresh_draft)\<lparr> mode := Masks, flood := True, threshold := 7 \<rparr> \<rparr>"

section \<open>Lemmas\<close>

text \<open>The definitions of the concrete inputs, for evaluating the model on them.\<close>

lemmas ex_defs = quality_def kind_def remark_def scenario_config_def regions_only_config_def
  fresh_draft_def new_region_def readonly_region_def old_region_def editing_draft_def
  readonly_draft_def dirty_draft_def masks_draft_def no_callbacks_def all_callbacks_def
  plain_key_def adding_def editing_def constructor_def_def constructor_config_def

lemmas read_defs = fieldFilled_def getProperty_def objectPrototype_def

subsection \<open>Required fields\<close>

text \<open>
  For a name that \<open>Object.prototype\<close> does not have, a required field is filled
  exactly when the labels own a non-empty entry of that name.
\<close>

lemma fieldFilled_own_name:
  assumes "objectPrototype (name c) = Undefined"
  shows "fieldFilled l c \<longleftrightarrow>
     (required c = Some True \<longrightarrow> (\<exists>v. map_of l (name c) = Some v \<and> v \<noteq> []))"
  using assms by (cases "map_of l (name c)") (auto simp: fieldFilled_def getProperty_def)

text \<open>An object read by key does not depend on the order of its keys.\<close>

lemma map_of_reordered:
  assumes "distinct (map fst l)" and "mset l' = mset l"
  shows "map_of l' = map_of l"
proof -
  have s: "set l' = set l" using assms(2) by (rule mset_eq_setD)
  have "mset (map fst l') = mset (map fst l)" using assms(2) by simp
  then have d: "distinct (map fst l')" using assms(1) by (metis mset_eq_imp_distinct_iff)
  show ?thesis
  proof
    fix k show "map_of l' k = map_of l k"
    proof (cases "map_of l k")
      case None
      then have "k \<notin> fst ` set l" by (simp add: map_of_eq_None_iff)
      then have "k \<notin> fst ` set l'" using s by simp
      then have "map_of l' k = None" by (simp add: map_of_eq_None_iff)
      then show ?thesis using None by simp
    next
      case (Some v)
      then have "(k, v) \<in> set l" by (rule map_of_SomeD)
      then have "(k, v) \<in> set l'" using s by simp
      then show ?thesis using Some d by simp
    qed
  qed
qed

lemma requiredFieldsFilled_computed:
  "requiredFieldsFilled (computedState sc props ar dis d) d \<longleftrightarrow>
     (\<forall>c \<in> set (activeConfig (computedState sc props ar dis d)).
        fieldFilled (cs_labels (computedState sc props ar dis d)) c)"
  by (cases "active (drawing d)")
     (simp_all add: requiredFieldsFilled_def computedState_def Let_def list_all_iff)

lemma fieldFilled_reordered:
  assumes "distinct (map fst l)" and "mset l' = mset l"
  shows "fieldFilled l' c = fieldFilled l c"
  by (simp add: fieldFilled_def getProperty_def map_of_reordered[OF assms])

lemma active_setLabels:
  "(active (drawing (setLabels l d)) = None) = (active (drawing d) = None)"
  by (cases "active (drawing d)") (simp_all add: setLabels_def)

lemma activeConfig_setLabels:
  "activeConfig (computedState sc props ar dis (setLabels l d)) =
   activeConfig (computedState sc props ar dis d)"
  by (simp add: computedState_def Let_def active_setLabels)

lemma cs_labels_setLabels: "cs_labels (computedState sc props ar dis (setLabels l d)) = l"
  by (cases "active (drawing d)") (simp_all add: computedState_def Let_def setLabels_def)

lemma cs_labels_relevant:
  "cs_labels (computedState sc props ar dis d) =
     (case active (drawing d) of
        Some a \<Rightarrow> region_labels (region a)
      | None \<Rightarrow> image_labels (labels d))"
  by (simp add: computedState_def Let_def)

lemma activeConfig_level:
  "activeConfig (computedState sc props ar dis draft) =
     sc (or_empty (case props of None \<Rightarrow> None
                   | Some p \<Rightarrow> if active (drawing draft) \<noteq> None then prop_regions p
                                else prop_image p))"
  by (cases props) (simp_all add: computedState_def Let_def)

text \<open>
  What the validation does decide: when no definition of the active configuration
  bears the name of a member of \<open>Object.prototype\<close>, it holds iff every required
  definition has a non-empty entry, in the active region's labels while a region is
  active and in the image labels otherwise.
\<close>

lemma requiredFieldsFilled_own_names:
  assumes "\<forall>c \<in> set (activeConfig (computedState sc props ar dis d)).
             objectPrototype (name c) = Undefined"
  shows "requiredFieldsFilled (computedState sc props ar dis d) d \<longleftrightarrow>
      (\<forall>c \<in> set (activeConfig (computedState sc props ar dis d)).
         required c = Some True \<longrightarrow>
           (\<exists>v. map_of (case active (drawing d) of
                          Some a \<Rightarrow> region_labels (region a)
                        | None \<Rightarrow> image_labels (labels d)) (name c) = Some v \<and> v \<noteq> []))"
  unfolding requiredFieldsFilled_computed cs_labels_relevant
  using assms fieldFilled_own_name by blast

text \<open>The order of the keys of the labels does not matter to it.\<close>

lemma requiredFieldsFilled_reordered:
  assumes "distinct (map fst l)" and "mset l' = mset l"
  shows "requiredFieldsFilled (computedState sc props ar dis (setLabels l' d)) (setLabels l' d) =
         requiredFieldsFilled (computedState sc props ar dis (setLabels l d)) (setLabels l d)"
  unfolding requiredFieldsFilled_computed activeConfig_setLabels cs_labels_setLabels
    fieldFilled_reordered[OF assms] ..

subsection \<open>Region lists by drawing mode\<close>

lemma regions_at_put:
  "regions_at (regions_put l m rs) m' = (if m' = m then rs else regions_at l m')"
  by (cases m; cases m') simp_all

lemma image_labels_regions_put: "image_labels (regions_put l m rs) = image_labels l"
  by (cases m) simp_all

lemma regions_put_same: "regions_put l m (regions_at l m) = l"
  by (cases m) simp_all

subsection \<open>The keyboard handler\<close>

text \<open>The save button is rendered whenever no region is active, the finish button whenever one is.\<close>

lemma mounted_commit_target:
  "mounted cbs nav draft (if active (drawing draft) = None then TSave else TFinishRegion)"
  by (simp add: mounted_def)

lemma enter_target:
  assumes "key event = ''Enter''" and "\<not> ctrlKey event" and "\<not> shiftKey event"
  shows "resolveKey event draft =
           Some ([], Some (if active (drawing draft) = None then TSave else TFinishRegion))"
  using assms by (simp add: resolveKey_def)

text \<open>
  The gate of the handler: when the validation is false, Enter raises the toast and
  clicks nothing, so the draft stays as it is.
\<close>

lemma enter_rejected_when_validation_fails:
  assumes "key event = ''Enter''" and "\<not> ctrlKey event" and "\<not> shiftKey event"
    and "\<not> altKey event"
    and "\<not> requiredFieldsFilled (computedState sc props ar dis draft) draft"
  shows "onKey sc props ar dis nav cbs draft event =
           (if onKeyboardEvent cbs then [CallOnKeyboardEvent] else []) @
           [SetToast ''Please fill in all required fields.'']
         \<and> draftAfter (requiredFieldsFilled (computedState sc props ar dis draft) draft)
              (onKey sc props ar dis nav cbs draft event) draft = Inr draft"
proof -
  have k: "onKey sc props ar dis nav cbs draft event =
           (if onKeyboardEvent cbs then [CallOnKeyboardEvent] else []) @
           [SetToast ''Please fill in all required fields.'']"
    using enter_target[OF assms(1-3), of draft] assms(4,5)
    by (simp add: onKey_def keyboardHandler_def)
  show ?thesis unfolding k by simp
qed

subsection \<open>Slices\<close>

lemma js_slice_prefix:
  "0 \<le> i \<Longrightarrow> i \<le> int (length xs) \<Longrightarrow> js_slice xs 0 i = take (nat i) xs"
  by (simp add: js_slice_def Let_def min_def)

lemma js_slice_from_suffix:
  "0 \<le> i \<Longrightarrow> js_slice_from xs i = drop (nat i) xs"
  by (simp add: js_slice_from_def js_slice_def Let_def min_def)

lemma js_slice_append:
  "js_slice xs 0 (int (length xs)) @ [x] @ js_slice_from xs (int (length xs) + 1) = xs @ [x]"
  by (simp add: js_slice_prefix js_slice_from_suffix)

lemma js_slice_replace:
  assumes "0 \<le> i" and "i < int (length xs)"
  shows "js_slice xs 0 i @ [x] @ js_slice_from xs (i + 1) = xs[nat i := x]"
proof -
  have n: "nat i < length xs" using assms by linarith
  have "nat (i + 1) = Suc (nat i)" using assms(1) by linarith
  then show ?thesis
    using assms n by (simp add: js_slice_prefix js_slice_from_suffix upd_conv_take_nth_drop)
qed

lemma find_name_iff:
  "find (\<lambda>c. name c = n) ds \<noteq> None \<longleftrightarrow> n \<in> name ` set ds"
  by (auto simp: find_None_iff)

section \<open>The claims\<close>

text \<open>
  C1, at a definition the code gets wrong. The validation is meant to hold iff every
  required definition has a non-empty entry in the assignment. With the one required
  image-level definition named \<open>constructor\<close> and no image labels at all, the entry
  is absent, and the validation holds all the same: the read finds the function
  \<open>Object\<close> on the prototype, whose \<^verbatim>\<open>length\<close> is 1. The same happens for the
  labels of an active region.
\<close>

theorem requiredFieldsFilled_inherited_name:
  "activeConfig (computedState (\<lambda>x. x) constructor_config True False fresh_draft) = [constructor_def]
   \<and> required constructor_def = Some True
   \<and> map_of (image_labels (labels fresh_draft)) (name constructor_def) = None
   \<and> requiredFieldsFilled (computedState (\<lambda>x. x) constructor_config True False fresh_draft) fresh_draft
   \<and> activeConfig (computedState (\<lambda>x. x) constructor_config True False editing_draft) = [constructor_def]
   \<and> active (drawing editing_draft) = Some \<lparr> region = new_region \<rparr>
   \<and> map_of (region_labels new_region) (name constructor_def) = None
   \<and> requiredFieldsFilled (computedState (\<lambda>x. x) constructor_config True False editing_draft) editing_draft"
  by (simp add: ex_defs read_defs computedState_def requiredFieldsFilled_def or_empty_def Let_def)

text \<open>
  C2, at the same definition. The required field \<open>constructor\<close> has no entry, and
  Enter raises no toast: with no region active the handler clicks the save button,
  and with a region active it clicks the finish button, whose \<open>onClick\<close> puts the
  region, still without the required label, on the list.
\<close>

theorem enter_dispatches_with_inherited_name:
  "required constructor_def = Some True
   \<and> map_of (image_labels (labels fresh_draft)) (name constructor_def) = None
   \<and> onKey (\<lambda>x. x) constructor_config True False True all_callbacks fresh_draft (plain_key ''Enter'') =
       [CallOnKeyboardEvent, SimulateClick TSave, PreventDefault, StopPropagation]
   \<and> active (drawing editing_draft) = Some \<lparr> region = new_region \<rparr>
   \<and> map_of (region_labels new_region) (name constructor_def) = None
   \<and> onKey (\<lambda>x. x) constructor_config True False True all_callbacks editing_draft (plain_key ''Enter'') =
       [CallOnKeyboardEvent, SimulateClick TFinishRegion, PreventDefault, StopPropagation]
   \<and> draftAfter
        (requiredFieldsFilled (computedState (\<lambda>x. x) constructor_config True False editing_draft)
           editing_draft)
        (onKey (\<lambda>x. x) constructor_config True False True all_callbacks editing_draft (plain_key ''Enter''))
        editing_draft =
       Inr (fresh_draft\<lparr> dirty := True,
                         labels := (labels fresh_draft)\<lparr> boxes := [new_region, old_region, old_region] \<rparr> \<rparr>)"
  by (simp add: ex_defs read_defs computedState_def requiredFieldsFilled_def or_empty_def Let_def
      onKey_def keyboardHandler_def resolveKey_def mounted_def buttonOnClick_def finishRegion_def)

text \<open>
  C3, as the code has it. For a draft with an active region, \<open>finishRegion\<close> clears
  the active region and sets \<open>dirty\<close>. With \<open>commit = true\<close> the active region is put at
  the head of the region list of the current drawing mode, whether or not it is
  readonly; with \<open>commit = false\<close> it is discarded and the labels are left as they
  were. The lists of the other modes, the image labels and the other drawing
  parameters are unchanged in both cases.
\<close>

theorem finishRegion_editing:
  assumes "active (drawing draft) = Some a"
  shows "\<exists>d'. finishRegion commit draft = Inr d'
           \<and> active (drawing d') = None
           \<and> dirty d'
           \<and> regions_at (labels d') (mode (drawing draft)) =
               (if commit then region a # regions_at (labels draft) (mode (drawing draft))
                else regions_at (labels draft) (mode (drawing draft)))
           \<and> (\<forall>m. m \<noteq> mode (drawing draft) \<longrightarrow>
                 regions_at (labels d') m = regions_at (labels draft) m)
           \<and> image_labels (labels d') = image_labels (labels draft)
           \<and> (\<not> commit \<longrightarrow> labels d' = labels draft)
           \<and> drawing d' = (drawing draft)\<lparr> active := None \<rparr>"
  using assms
  by (simp add: finishRegion_def regions_at_put image_labels_regions_put regions_put_same)

theorem finishRegion_editing_witness:
  "active (drawing editing_draft) = Some \<lparr> region = new_region \<rparr>
   \<and> finishRegion True editing_draft =
       Inr (fresh_draft\<lparr> dirty := True,
                         labels := (labels fresh_draft)\<lparr> boxes := [new_region, old_region, old_region] \<rparr> \<rparr>)
   \<and> finishRegion False editing_draft =
       Inr (fresh_draft\<lparr> dirty := True,
                         labels := (labels fresh_draft)\<lparr> boxes := [old_region, old_region] \<rparr> \<rparr>)
   \<and> Polygons \<noteq> mode (drawing editing_draft)
   \<and> (\<exists>d'. finishRegion True editing_draft = Inr d' \<and> active (drawing d') = None \<and> dirty d'
          \<and> regions_at (labels d') Boxes = new_region # regions_at (labels editing_draft) Boxes
          \<and> regions_at (labels d') Polygons = regions_at (labels editing_draft) Polygons)
   \<and> (\<exists>d'. finishRegion False editing_draft = Inr d' \<and> active (drawing d') = None \<and> dirty d'
          \<and> labels d' = labels editing_draft)"
  using finishRegion_editing[of editing_draft "\<lparr> region = new_region \<rparr>" True]
    finishRegion_editing[of editing_draft "\<lparr> region = new_region \<rparr>" False]
  by (simp add: ex_defs finishRegion_def)

text \<open>
  C3 as stated fails: finishing a readonly active region with \<open>commit = true\<close> adds it
  to the region list of the current mode.
\<close>

theorem finishRegion_readonly_counterexample:
  "active (drawing readonly_draft) = Some \<lparr> region = readonly_region \<rparr>
   \<and> readonly readonly_region = Some True
   \<and> regions_at (labels readonly_draft) (mode (drawing readonly_draft)) = []
   \<and> finishRegion True readonly_draft =
       Inr (fresh_draft\<lparr> dirty := True,
                         labels := (labels fresh_draft)\<lparr> boxes := [readonly_region] \<rparr> \<rparr>)"
  by (simp add: ex_defs finishRegion_def)

text \<open>
  C4. Enter with no ctrl, shift or alt resolves to \<open>save\<close> when no region is active and
  to \<open>finishRegion\<close> when one is; with the required fields filled the handler clicks
  that button.
\<close>

theorem enter_resolves_by_state:
  assumes "key event = ''Enter''" and "\<not> ctrlKey event" and "\<not> shiftKey event"
    and "\<not> altKey event"
  shows "resolveKey event draft =
           Some ([], Some (if active (drawing draft) = None then TSave else TFinishRegion))
         \<and> (requiredFieldsFilled (computedState sc props ar dis draft) draft \<longrightarrow>
              onKey sc props ar dis nav cbs draft event =
                (if onKeyboardEvent cbs then [CallOnKeyboardEvent] else []) @
                [SimulateClick (if active (drawing draft) = None then TSave else TFinishRegion),
                 PreventDefault, StopPropagation])"
  using enter_target[OF assms(1-3), of draft] assms(4) mounted_commit_target[of cbs nav draft]
  by (simp add: onKey_def keyboardHandler_def)

theorem enter_resolves_by_state_witness:
  "key (plain_key ''Enter'') = ''Enter'' \<and> \<not> ctrlKey (plain_key ''Enter'')
   \<and> \<not> shiftKey (plain_key ''Enter'') \<and> \<not> altKey (plain_key ''Enter'')
   \<and> active (drawing fresh_draft) = None
   \<and> resolveKey (plain_key ''Enter'') fresh_draft = Some ([], Some TSave)
   \<and> active (drawing editing_draft) \<noteq> None
   \<and> resolveKey (plain_key ''Enter'') editing_draft = Some ([], Some TFinishRegion)
   \<and> requiredFieldsFilled (computedState (\<lambda>x. x) None True False fresh_draft) fresh_draft
   \<and> onKey (\<lambda>x. x) None True False True all_callbacks fresh_draft (plain_key ''Enter'') =
       [CallOnKeyboardEvent, SimulateClick TSave, PreventDefault, StopPropagation]"
  using enter_resolves_by_state[of "plain_key ''Enter''" fresh_draft "\<lambda>x. x" None True False True all_callbacks]
    enter_resolves_by_state[of "plain_key ''Enter''" editing_draft "\<lambda>x. x" None True False True all_callbacks]
  by (simp add: ex_defs computedState_def requiredFieldsFilled_def or_empty_def Let_def)

text \<open>
  C5. On a dirty draft, ArrowRight without ctrl or shift (which would resolve to
  \<open>next\<close>) and ArrowLeft (\<open>prev\<close>), alt not held, click nothing: the handler's only
  effect, besides the pass-through to \<open>callbacks.onKeyboardEvent\<close>, is a toast asking
  to save or reset first.
\<close>

theorem navigation_blocked_when_dirty:
  assumes "dirty draft" and "\<not> altKey event"
  shows "(key event = ''ArrowRight'' \<and> \<not> ctrlKey event \<and> \<not> shiftKey event \<longrightarrow>
            onKey sc props ar dis nav cbs draft event =
              (if onKeyboardEvent cbs then [CallOnKeyboardEvent] else []) @
              [SetToast ''Please save or reset your changes before advancing to next item.''])
         \<and> (key event = ''ArrowLeft'' \<longrightarrow>
            onKey sc props ar dis nav cbs draft event =
              (if onKeyboardEvent cbs then [CallOnKeyboardEvent] else []) @
              [SetToast ''Please save or reset your changes before returning to previous item.''])"
  using assms by (simp add: onKey_def keyboardHandler_def resolveKey_def)

theorem navigation_blocked_when_dirty_witness:
  "dirty dirty_draft \<and> \<not> altKey (plain_key ''ArrowRight'') \<and> \<not> altKey (plain_key ''ArrowLeft'')
   \<and> key (plain_key ''ArrowRight'') = ''ArrowRight''
   \<and> \<not> ctrlKey (plain_key ''ArrowRight'') \<and> \<not> shiftKey (plain_key ''ArrowRight'')
   \<and> onKey (\<lambda>x. x) scenario_config True False True all_callbacks dirty_draft (plain_key ''ArrowRight'') =
       [CallOnKeyboardEvent,
        SetToast ''Please save or reset your changes before advancing to next item.'']
   \<and> key (plain_key ''ArrowLeft'') = ''ArrowLeft''
   \<and> onKey (\<lambda>x. x) scenario_config True False True no_callbacks dirty_draft (plain_key ''ArrowLeft'') =
       [SetToast ''Please save or reset your changes before returning to previous item.'']"
  using navigation_blocked_when_dirty
      [of dirty_draft "plain_key ''ArrowRight''" "\<lambda>x. x" scenario_config True False True all_callbacks]
    navigation_blocked_when_dirty
      [of dirty_draft "plain_key ''ArrowLeft''" "\<lambda>x. x" scenario_config True False True no_callbacks]
  by (simp add: ex_defs)

text \<open>
  C6, as the code has it. The transitions that edit the labels set \<open>dirty\<close>:
  \<open>setLabels\<close>, and \<open>finishRegion\<close> whenever it returns a draft. A switch of the
  drawing mode and a change of flood, threshold or radius leave \<open>dirty\<close> as it was.
\<close>

theorem dirty_after_transitions:
  "dirty (setLabels l draft)
   \<and> (\<forall>d'. finishRegion commit draft = Inr d' \<longrightarrow> dirty d')
   \<and> dirty (setDrawingMode m draft) = dirty draft
   \<and> dirty (setFlood fl draft) = dirty draft
   \<and> dirty (setThreshold v draft) = dirty draft
   \<and> dirty (setRadius w draft) = dirty draft"
  by (auto simp: setLabels_def finishRegion_def setDrawingMode_def setFlood_def
      setThreshold_def setRadius_def split: option.splits)

theorem dirty_after_transitions_witness:
  "dirty (setLabels [(''quality'', [''good''])] fresh_draft)
   \<and> finishRegion True editing_draft =
       Inr (fresh_draft\<lparr> dirty := True,
                         labels := (labels fresh_draft)\<lparr> boxes := [new_region, old_region, old_region] \<rparr> \<rparr>)
   \<and> dirty (fresh_draft\<lparr> dirty := True,
                         labels := (labels fresh_draft)\<lparr> boxes := [new_region, old_region, old_region] \<rparr> \<rparr>)
   \<and> \<not> dirty (setDrawingMode Masks fresh_draft)
   \<and> \<not> dirty (setFlood True fresh_draft)
   \<and> \<not> dirty (setThreshold 3 fresh_draft)
   \<and> dirty (setRadius 4 dirty_draft)"
  using dirty_after_transitions[of "[(''quality'', [''good''])]" fresh_draft True Masks True 3 4]
    dirty_after_transitions[of "[]" editing_draft True Masks True 3 4]
    dirty_after_transitions[of "[]" dirty_draft True Masks True 3 4]
  by (simp add: ex_defs finishRegion_def)

text \<open>
  C6 as stated fails: from a clean draft, a mode switch and a change of threshold,
  radius or flood each give a different draft whose \<open>dirty\<close> is still false.
\<close>

theorem mode_switch_not_dirty_counterexample:
  "dirty fresh_draft = False
   \<and> setDrawingMode Polygons fresh_draft \<noteq> fresh_draft
   \<and> dirty (setDrawingMode Polygons fresh_draft) = False
   \<and> setThreshold 3 (setDrawingMode Masks fresh_draft) \<noteq> setDrawingMode Masks fresh_draft
   \<and> dirty (setThreshold 3 (setDrawingMode Masks fresh_draft)) = False
   \<and> setRadius 3 (setDrawingMode Masks fresh_draft) \<noteq> setDrawingMode Masks fresh_draft
   \<and> dirty (setRadius 3 (setDrawingMode Masks fresh_draft)) = False
   \<and> setFlood True (setDrawingMode Masks fresh_draft) \<noteq> setDrawingMode Masks fresh_draft
   \<and> dirty (setFlood True (setDrawingMode Masks fresh_draft)) = False"
  by (simp add: ex_defs setDrawingMode_def setThreshold_def setRadius_def setFlood_def)

text \<open>
  C7. While a region is active the mode selector is disabled, and a selection leaves
  the draft as it is. From a draft with no active region (and the component not
  disabled) a selection changes \<open>drawing.mode\<close> and nothing else: flood, threshold and
  radius, the labels and \<open>dirty\<close> are those of the draft before.
\<close>

theorem mode_switch_frame:
  "(active (drawing draft) \<noteq> None \<longrightarrow> selectDrawingMode disabled m draft = draft)
   \<and> (active (drawing draft) = None \<and> \<not> disabled \<longrightarrow>
        selectDrawingMode disabled m draft = draft\<lparr> drawing := (drawing draft)\<lparr> mode := m \<rparr> \<rparr>)
   \<and> mode (drawing (setDrawingMode m draft)) = m
   \<and> flood (drawing (setDrawingMode m draft)) = flood (drawing draft)
   \<and> threshold (drawing (setDrawingMode m draft)) = threshold (drawing draft)
   \<and> radius (drawing (setDrawingMode m draft)) = radius (drawing draft)
   \<and> active (drawing (setDrawingMode m draft)) = active (drawing draft)
   \<and> labels (setDrawingMode m draft) = labels draft
   \<and> dirty (setDrawingMode m draft) = dirty draft"
  by (simp add: selectDrawingMode_def labelPanelSelect_def modeSelectorDisabled_def
      setDrawingMode_def)

theorem mode_switch_frame_witness:
  "active (drawing editing_draft) \<noteq> None
   \<and> selectDrawingMode False Masks editing_draft = editing_draft
   \<and> active (drawing masks_draft) = None
   \<and> selectDrawingMode False Boxes masks_draft =
       masks_draft\<lparr> drawing := (drawing masks_draft)\<lparr> mode := Boxes \<rparr> \<rparr>
   \<and> mode (drawing (selectDrawingMode False Boxes masks_draft)) = Boxes
   \<and> flood (drawing (selectDrawingMode False Boxes masks_draft)) = True
   \<and> threshold (drawing (selectDrawingMode False Boxes masks_draft)) = 7
   \<and> radius (drawing (selectDrawingMode False Boxes masks_draft)) = 10"
  using mode_switch_frame[of editing_draft False Masks]
    mode_switch_frame[of masks_draft False Boxes]
  by (simp add: ex_defs)

text \<open>
  C8. Adding a definition (\<open>state.index\<close> null) whose name is that of a definition of
  the same level throws and hands nothing to \<open>onSaveConfig\<close>. Only the names of that
  level count, so a name used at the other level is accepted, and the definition is
  appended. Saving with an index that is a position of the level's list replaces the
  definition there, in place, with no check of names.
\<close>

theorem onSave_duplicate_names:
  "(index st = None \<and> name newLabelConfig \<in> name ` set (config_at (cs_config cs) lvl) \<longrightarrow>
      onSave cs st newLabelConfig lvl =
        Inl ''User attempted to add a config with the name of an existing config.'')
   \<and> (index st = None \<and> name newLabelConfig \<notin> name ` set (config_at (cs_config cs) lvl) \<longrightarrow>
      onSave cs st newLabelConfig lvl =
        Inr (config_put (cs_config cs) lvl (config_at (cs_config cs) lvl @ [newLabelConfig]),
             \<lparr> configEditorOpen = False, index = None \<rparr>))
   \<and> (index st = Some i \<and> 0 \<le> i \<and> i < int (length (config_at (cs_config cs) lvl)) \<longrightarrow>
      onSave cs st newLabelConfig lvl =
        Inr (config_put (cs_config cs) lvl ((config_at (cs_config cs) lvl)[nat i := newLabelConfig]),
             \<lparr> configEditorOpen = False, index = None \<rparr>))"
proof (intro conjI impI)
  assume "index st = None \<and> name newLabelConfig \<in> name ` set (config_at (cs_config cs) lvl)"
  then show "onSave cs st newLabelConfig lvl =
        Inl ''User attempted to add a config with the name of an existing config.''"
    using find_name_iff[of "name newLabelConfig" "config_at (cs_config cs) lvl"]
    by (simp add: onSave_def)
next
  assume "index st = None \<and> name newLabelConfig \<notin> name ` set (config_at (cs_config cs) lvl)"
  then show "onSave cs st newLabelConfig lvl =
        Inr (config_put (cs_config cs) lvl (config_at (cs_config cs) lvl @ [newLabelConfig]),
             \<lparr> configEditorOpen = False, index = None \<rparr>)"
    using find_name_iff[of "name newLabelConfig" "config_at (cs_config cs) lvl"]
      js_slice_append[of "config_at (cs_config cs) lvl" newLabelConfig]
    by (simp add: onSave_def Let_def)
next
  assume "index st = Some i \<and> 0 \<le> i \<and> i < int (length (config_at (cs_config cs) lvl))"
  then show "onSave cs st newLabelConfig lvl =
        Inr (config_put (cs_config cs) lvl ((config_at (cs_config cs) lvl)[nat i := newLabelConfig]),
             \<lparr> configEditorOpen = False, index = None \<rparr>)"
    using js_slice_replace[of i "config_at (cs_config cs) lvl" newLabelConfig]
    by (simp add: onSave_def Let_def)
qed

theorem onSave_duplicate_names_witness:
  "index adding = None
   \<and> name quality \<in> name ` set (config_at (cs_config (computedState (\<lambda>x. x) scenario_config True False fresh_draft)) Image)
   \<and> onSave (computedState (\<lambda>x. x) scenario_config True False fresh_draft) adding quality Image =
       Inl ''User attempted to add a config with the name of an existing config.''
   \<and> name quality \<notin> name ` set (config_at (cs_config (computedState (\<lambda>x. x) scenario_config True False fresh_draft)) Regions)
   \<and> onSave (computedState (\<lambda>x. x) scenario_config True False fresh_draft) adding quality Regions =
       Inr (\<lparr> config_image = [quality, remark], config_regions = [kind, quality] \<rparr>,
            \<lparr> configEditorOpen = False, index = None \<rparr>)
   \<and> index (editing 1) = Some 1
   \<and> (1::int) < int (length (config_at (cs_config (computedState (\<lambda>x. x) scenario_config True False fresh_draft)) Image))
   \<and> onSave (computedState (\<lambda>x. x) scenario_config True False fresh_draft) (editing 1) quality Image =
       Inr (\<lparr> config_image = [quality, quality], config_regions = [kind] \<rparr>,
            \<lparr> configEditorOpen = False, index = None \<rparr>)"
  using onSave_duplicate_names
      [of adding quality "computedState (\<lambda>x. x) scenario_config True False fresh_draft" Image 1]
    onSave_duplicate_names
      [of adding quality "computedState (\<lambda>x. x) scenario_config True False fresh_draft" Regions 1]
    onSave_duplicate_names
      [of "editing 1" quality "computedState (\<lambda>x. x) scenario_config True False fresh_draft" Image 1]
  by (simp add: ex_defs computedState_def or_empty_def Let_def)

text \<open>
  C9. \<open>finishRegion\<close> with no active region throws, for either value of its argument:
  the result is the thrown message and \<open>setDraft\<close> is not reached.
\<close>

theorem finishRegion_idle_throws:
  "active (drawing draft) = None \<Longrightarrow>
     finishRegion commit draft = Inl ''Called to finish region but no region is selected.''"
  by (simp add: finishRegion_def)

theorem finishRegion_idle_throws_witness:
  "active (drawing fresh_draft) = None
   \<and> finishRegion True fresh_draft = Inl ''Called to finish region but no region is selected.''
   \<and> finishRegion False fresh_draft = Inl ''Called to finish region but no region is selected.''"
  using finishRegion_idle_throws[of fresh_draft True] finishRegion_idle_throws[of fresh_draft False]
  by (simp add: fresh_draft_def)

text \<open>
  C10. When the configuration, or its list for the level in use, is absent or empty
  (and \<open>shortcutify\<close> gives no definitions for none), the required fields count as
  filled for every draft, and no key event raises the toast
  \<open>Please fill in all required fields.\<close>
\<close>

theorem empty_config_never_blocks:
  assumes "sc [] = []"
    and "props = None
         \<or> (\<exists>p. props = Some p \<and>
               (if active (drawing draft) \<noteq> None then prop_regions p else prop_image p)
                 \<in> {None, Some []})"
  shows "requiredFieldsFilled (computedState sc props ar dis draft) draft
         \<and> SetToast ''Please fill in all required fields.''
             \<notin> set (onKey sc props ar dis nav cbs draft event)"
proof -
  have "activeConfig (computedState sc props ar dis draft) = []"
    using assms unfolding activeConfig_level by (auto simp: or_empty_def)
  then have f: "requiredFieldsFilled (computedState sc props ar dis draft) draft"
    by (simp add: requiredFieldsFilled_def split: option.splits)
  have "SetToast ''Please fill in all required fields.''
             \<notin> set (onKey sc props ar dis nav cbs draft event)"
    using f by (auto simp: onKey_def keyboardHandler_def resolveKey_def Let_def
        split: option.splits if_splits)
  with f show ?thesis by simp
qed

theorem empty_config_never_blocks_witness:
  "(\<lambda>x::label_config list. x) [] = []
   \<and> prop_image \<lparr> prop_image = None, prop_regions = Some [kind] \<rparr> \<in> {None, Some []}
   \<and> requiredFieldsFilled (computedState (\<lambda>x. x) regions_only_config True False fresh_draft) fresh_draft
   \<and> onKey (\<lambda>x. x) regions_only_config True False True all_callbacks fresh_draft (plain_key ''Enter'') =
       [CallOnKeyboardEvent, SimulateClick TSave, PreventDefault, StopPropagation]
   \<and> requiredFieldsFilled (computedState (\<lambda>x. x) None True False editing_draft) editing_draft
   \<and> onKey (\<lambda>x. x) None True False True no_callbacks editing_draft (plain_key ''Enter'') =
       [SimulateClick TFinishRegion, PreventDefault, StopPropagation]"
  using empty_config_never_blocks
      [of "\<lambda>x. x" regions_only_config fresh_draft True False True all_callbacks "plain_key ''Enter''"]
    empty_config_never_blocks
      [of "\<lambda>x. x" None editing_draft True False True no_callbacks "plain_key ''Enter''"]
  by (simp add: ex_defs computedState_def requiredFieldsFilled_def or_empty_def Let_def
      onKey_def keyboardHandler_def resolveKey_def mounted_def)

end
